theory Spec2Isabelle
  imports Complex_Main
begin

section \<open>Numbers\<close>

text \<open>
  The values that a slot of TypeScript type \<^verbatim>\<open>number\<close> holds at run time in this
  library: a finite double, one of the two infinities, \<^verbatim>\<open>NaN\<close>, or \<^verbatim>\<open>undefined\<close>
  (the result of reading an array past its end, as in \<^verbatim>\<open>point[2]\<close> on a two-element
  array). A finite double is given by its real value; the sign of zero is not
  modelled (\<^verbatim>\<open>-0 === 0\<close>). The special values follow IEEE 754 as JavaScript applies it.
\<close>

datatype number = Fin real | PosInf | NegInf | NaN | Undefined

text \<open>
  Rounding of a real result to binary64, to nearest with ties to even. Around \<open>x\<close>
  the doubles are the integer multiples of \<open>2 powi (e - 52)\<close>, where \<open>e\<close> is the binary
  exponent of \<open>x\<close>, not below that of the smallest normal number; a result that rounds
  to magnitude \<open>2 ^ 1024\<close> or more overflows to an infinity.
\<close>

definition round_even :: "real \<Rightarrow> int" where
  "round_even x =
     (let f = \<lfloor>x\<rfloor>; d = x - of_int f
      in if d < 1 / 2 then f else if 1 / 2 < d then f + 1 else if even f then f else f + 1)"

definition round_double :: "real \<Rightarrow> number" where
  "round_double x =
     (if x = 0 then Fin 0
      else let e = max \<lfloor>log 2 \<bar>x\<bar>\<rfloor> (- 1022);
               u = 2 powi (e - 52);
               r = of_int (round_even (x / u)) * u
           in if 2 ^ 1024 \<le> \<bar>r\<bar> then (if 0 < x then PosInf else NegInf) else Fin r)"

text \<open>
  \<^verbatim>\<open>numberField.add\<close>, that is \<^verbatim>\<open>x + y\<close> on numbers: the real sum of two finite
  doubles, rounded; \<^verbatim>\<open>undefined\<close> coerces to \<^verbatim>\<open>NaN\<close>.
\<close>

fun number_add :: "number \<Rightarrow> number \<Rightarrow> number" where
  "number_add (Fin x) (Fin y) = round_double (x + y)"
| "number_add (Fin x) PosInf = PosInf"
| "number_add PosInf (Fin y) = PosInf"
| "number_add PosInf PosInf = PosInf"
| "number_add (Fin x) NegInf = NegInf"
| "number_add NegInf (Fin y) = NegInf"
| "number_add NegInf NegInf = NegInf"
| "number_add _ _ = NaN"

text \<open>
  \<^verbatim>\<open>numberField.mul\<close>, that is \<^verbatim>\<open>x * y\<close>: the real product of two finite doubles,
  rounded; zero times an infinity is \<^verbatim>\<open>NaN\<close>.
\<close>

fun number_mul :: "number \<Rightarrow> number \<Rightarrow> number" where
  "number_mul (Fin x) (Fin y) = round_double (x * y)"
| "number_mul (Fin x) PosInf = (if x = 0 then NaN else if 0 < x then PosInf else NegInf)"
| "number_mul (Fin x) NegInf = (if x = 0 then NaN else if 0 < x then NegInf else PosInf)"
| "number_mul PosInf (Fin y) = (if y = 0 then NaN else if 0 < y then PosInf else NegInf)"
| "number_mul NegInf (Fin y) = (if y = 0 then NaN else if 0 < y then NegInf else PosInf)"
| "number_mul PosInf PosInf = PosInf"
| "number_mul PosInf NegInf = NegInf"
| "number_mul NegInf PosInf = NegInf"
| "number_mul NegInf NegInf = PosInf"
| "number_mul _ _ = NaN"

text \<open>Unary minus, as in \<^verbatim>\<open>-sin(angle)\<close>.\<close>

fun number_neg :: "number \<Rightarrow> number" where
  "number_neg (Fin x) = Fin (- x)"
| "number_neg PosInf = NegInf"
| "number_neg NegInf = PosInf"
| "number_neg _ = NaN"

instantiation number :: "{plus, times, uminus}"
begin

definition plus_number :: "number \<Rightarrow> number \<Rightarrow> number" where
  "plus_number = number_add"

definition times_number :: "number \<Rightarrow> number \<Rightarrow> number" where
  "times_number = number_mul"

definition uminus_number :: "number \<Rightarrow> number" where
  "uminus_number = number_neg"

instance ..

end

text \<open>The global \<^verbatim>\<open>isFinite\<close>: it coerces its argument, so \<^verbatim>\<open>undefined\<close> is not finite.\<close>

fun isFinite :: "number \<Rightarrow> bool" where
  "isFinite (Fin x) = True"
| "isFinite _ = False"

text \<open>Strict equality \<^verbatim>\<open>===\<close>: \<^verbatim>\<open>NaN\<close> differs from everything, itself included.\<close>

fun strict_eq :: "number \<Rightarrow> number \<Rightarrow> bool" where
  "strict_eq (Fin x) (Fin y) = (x = y)"
| "strict_eq PosInf PosInf = True"
| "strict_eq NegInf NegInf = True"
| "strict_eq Undefined Undefined = True"
| "strict_eq _ _ = False"

section \<open>Vec\<close>

text \<open>
  \<^verbatim>\<open>Vec = ReadonlyNonEmptyArray<number>\<close>. The arity is not part of the type; a read
  past the end gives \<^verbatim>\<open>undefined\<close>.
\<close>

type_synonym vec = "number list"

text \<open>\<^verbatim>\<open>at(i)(v) = v[i]\<close>\<close>

definition vec_at :: "nat \<Rightarrow> vec \<Rightarrow> number" where
  "vec_at i v = (if i < length v then v ! i else Undefined)"

text \<open>
  \<^verbatim>\<open>RNEA.zipWith(as, bs, f)\<close> of fp-ts: the first element is always computed from
  \<^verbatim>\<open>as[0]\<close> and \<^verbatim>\<open>bs[0]\<close>, the loop then runs over the indices from 1 below the shorter
  length. Nothing checks that the lengths agree.
\<close>

definition zipWith :: "vec \<Rightarrow> vec \<Rightarrow> (number \<Rightarrow> number \<Rightarrow> number) \<Rightarrow> vec" where
  "zipWith as bs f = f (vec_at 0 as) (vec_at 0 bs) # map2 f (tl as) (tl bs)"

text \<open>
  \<^verbatim>\<open>dot(fb)(fa) = pipe(RNEA.zipWith(fa, fb, numberField.mul), RNEA.reduce(0, numberField.add))\<close>
\<close>

definition dot :: "vec \<Rightarrow> vec \<Rightarrow> number" where
  "dot fb fa = foldl (+) (Fin 0) (zipWith fa fb (*))"

section \<open>Path3D\<close>

type_synonym path3d = "vec list list"

definition isPointFinite :: "vec \<Rightarrow> bool" where
  "isPointFinite point \<longleftrightarrow>
     isFinite (vec_at 0 point) \<and> isFinite (vec_at 1 point) \<and> isFinite (vec_at 2 point)"

definition moveTo :: "vec \<Rightarrow> path3d \<Rightarrow> path3d" where
  "moveTo point path = (if isPointFinite point then path @ [[point]] else path)"

text \<open>\<^verbatim>\<open>NEA.modifyLast(cur => RA.append(point)(cur))\<close> rebuilds the last subpath.\<close>

definition lineTo :: "vec \<Rightarrow> path3d \<Rightarrow> path3d" where
  "lineTo point path =
     (if isPointFinite point
      then (if path \<noteq> [] then butlast path @ [last path @ [point]]
            else moveTo point path)
      else path)"

text \<open>
  The test of \<^verbatim>\<open>closePath\<close> on the two ends of the last subpath:
  \<^verbatim>\<open>end[0] === start[0] && end[1] === start[1] && end[2] === start[2]\<close>.
\<close>

definition same_point :: "vec \<Rightarrow> vec \<Rightarrow> bool" where
  "same_point e s \<longleftrightarrow>
     strict_eq (vec_at 0 e) (vec_at 0 s) \<and> strict_eq (vec_at 1 e) (vec_at 1 s)
       \<and> strict_eq (vec_at 2 e) (vec_at 2 s)"

definition closePath :: "path3d \<Rightarrow> path3d" where
  "closePath path =
     (if \<not> path \<noteq> [] then path
      else let cur = last path in
        if \<not> (cur \<noteq> [] \<and> length cur > 1) then path
        else let end = last cur; start = hd cur in
          if same_point end start then path
          else (butlast path @ [cur @ [start]]) @ [[start]])"

section \<open>Mat\<close>

text \<open>
  \<^verbatim>\<open>Mat = ReadonlyNonEmptyArray<Vec>\<close>: a non-empty list of rows. The empty list is
  outside the type; \<^verbatim>\<open>RNEA.head\<close> of it has no row to map over, and the model gives
  the empty matrix there.
\<close>

type_synonym mat = "vec list"

text \<open>\<^verbatim>\<open>sin = deg => Math.sin((deg * Math.PI) / 180.0)\<close>, and \<^verbatim>\<open>cos\<close> alike.\<close>

fun sin_deg :: "number \<Rightarrow> number" where
  "sin_deg (Fin d) = Fin (sin ((d * pi) / 180))"
| "sin_deg _ = NaN"

fun cos_deg :: "number \<Rightarrow> number" where
  "cos_deg (Fin d) = Fin (cos ((d * pi) / 180))"
| "cos_deg _ = NaN"

text \<open>\<^verbatim>\<open>row = flow(at, RNEA.map)\<close>: the \<open>n\<close>-th component of every row.\<close>

definition row :: "nat \<Rightarrow> mat \<Rightarrow> vec" where
  "row n as = map (vec_at n) as"

text \<open>
  \<^verbatim>\<open>transpose(fa) = pipe(RNEA.head(fa), RNEA.mapWithIndex(flow(row, apply(fa))))\<close>:
  one row \<^verbatim>\<open>row(i)(fa)\<close> for each index \<open>i\<close> of the first row of \<open>fa\<close>.
\<close>

definition transpose_mat :: "mat \<Rightarrow> mat" where
  "transpose_mat fa =
     (case fa of [] \<Rightarrow> [] | r # _ \<Rightarrow> map (\<lambda>i. row i fa) [0..<length r])"

definition translate :: "vec \<Rightarrow> mat" where
  "translate v =
     [[Fin 1, Fin 0, Fin 0, Fin 0],
      [Fin 0, Fin 1, Fin 0, Fin 0],
      [Fin 0, Fin 0, Fin 1, Fin 0],
      [vec_at 0 v, vec_at 1 v, vec_at 2 v, Fin 1]]"

definition scale :: "vec \<Rightarrow> mat" where
  "scale v =
     [[vec_at 0 v, Fin 0, Fin 0, Fin 0],
      [Fin 0, vec_at 1 v, Fin 0, Fin 0],
      [Fin 0, Fin 0, vec_at 2 v, Fin 0],
      [Fin 0, Fin 0, Fin 0, Fin 1]]"

definition rotateX :: "number \<Rightarrow> mat" where
  "rotateX a =
     [[Fin 1, Fin 0, Fin 0, Fin 0],
      [Fin 0, cos_deg a, sin_deg a, Fin 0],
      [Fin 0, - sin_deg a, cos_deg a, Fin 0],
      [Fin 0, Fin 0, Fin 0, Fin 1]]"

definition rotateY :: "number \<Rightarrow> mat" where
  "rotateY a =
     [[cos_deg a, Fin 0, - sin_deg a, Fin 0],
      [Fin 0, Fin 1, Fin 0, Fin 0],
      [sin_deg a, Fin 0, cos_deg a, Fin 0],
      [Fin 0, Fin 0, Fin 0, Fin 1]]"

definition rotateZ :: "number \<Rightarrow> mat" where
  "rotateZ a =
     [[cos_deg a, sin_deg a, Fin 0, Fin 0],
      [- sin_deg a, cos_deg a, Fin 0, Fin 0],
      [Fin 0, Fin 0, Fin 0, Fin 0],
      [Fin 0, Fin 0, Fin 0, Fin 1]]"

text \<open>
  \<^verbatim>\<open>semigroupMat.concat(x, y) =
    pipe(map(transpose(y), dot), fab => map(x, ar => map(fab, f => f(ar))))\<close>
\<close>

definition concat_mat :: "mat \<Rightarrow> mat \<Rightarrow> mat" where
  "concat_mat x y = map (\<lambda>ar. map (\<lambda>col. dot col ar) (transpose_mat y)) x"

text \<open>\<^verbatim>\<open>mul(fb)(fa) = semigroupMat.concat(fa, fb)\<close>\<close>

definition mul :: "mat \<Rightarrow> mat \<Rightarrow> mat" where
  "mul fb fa = concat_mat fa fb"

definition identity :: mat where
  "identity =
     [[Fin 1, Fin 0, Fin 0, Fin 0],
      [Fin 0, Fin 1, Fin 0, Fin 0],
      [Fin 0, Fin 0, Fin 1, Fin 0],
      [Fin 0, Fin 0, Fin 0, Fin 1]]"

section \<open>Shape\<close>

datatype Angle = Degrees number | Radians number

datatype shape =
    Composite "shape list"
  | Path (path_closed: bool) (path_points: "vec list")

text \<open>\<^verbatim>\<open>angle\<close>: radians become degrees by \<^verbatim>\<open>angle.radians * (180 / Math.PI)\<close>.\<close>

fun angle :: "Angle \<Rightarrow> number" where
  "angle (Radians r) = r * Fin (180 / pi)"
| "angle (Degrees d) = d"

text \<open>
  \<^verbatim>\<open>monoidPath.empty\<close>: the struct monoid takes the empty of every field, and the
  empty of \<^verbatim>\<open>MonoidAny\<close> is \<^verbatim>\<open>false\<close>.
\<close>

definition monoidPath_empty :: shape where
  "monoidPath_empty = Path False []"

text \<open>
  A \<^verbatim>\<open>Foldable\<close> instance is used through its \<^verbatim>\<open>reduce\<close> only, at the accumulator
  type \<^verbatim>\<open>Path\<close>; it is passed as that function. \<open>reduce_array\<close> is the instance of
  \<^verbatim>\<open>ReadonlyArray\<close>, a left fold.
\<close>

type_synonym 'f foldable = "'f \<Rightarrow> shape \<Rightarrow> (shape \<Rightarrow> vec \<Rightarrow> shape) \<Rightarrow> shape"

definition reduce_array :: "vec list foldable" where
  "reduce_array fa b f = foldl f b fa"

definition closed_path :: "'f foldable \<Rightarrow> 'f \<Rightarrow> shape" where
  "closed_path F fa = F fa monoidPath_empty (\<lambda>b a. Path True (path_points b @ [a]))"

definition path :: "'f foldable \<Rightarrow> 'f \<Rightarrow> shape" where
  "path F fa = F fa monoidPath_empty (\<lambda>b a. Path False (path_points b @ [a]))"

section \<open>Drawing\<close>

datatype 'c fillStyle = FillStyle (fill_color: "'c option")

datatype 'c outlineStyle =
  OutlineStyle (outline_color: "'c option") (outline_lineWidth: "number option")

datatype 'c drawing =
    Outline shape "'c outlineStyle"
  | Fill shape "'c fillStyle"
  | Many "'c drawing list"
  | Translate number number number "'c drawing"
  | Rotate Angle Angle Angle "'c drawing"
  | Scale number number number "'c drawing"

text \<open>\<^verbatim>\<open>monoidDrawing\<close>; \<^verbatim>\<open>many\<close> is the constructor \<open>Many\<close>.\<close>

fun monoidDrawing_concat :: "'c drawing \<Rightarrow> 'c drawing \<Rightarrow> 'c drawing" where
  "monoidDrawing_concat (Many xs) (Many ys) = Many (concat [xs, ys])"
| "monoidDrawing_concat (Many xs) y = Many (concat [xs, [y]])"
| "monoidDrawing_concat x (Many ys) = Many (concat [[x], ys])"
| "monoidDrawing_concat x y = Many [x, y]"

definition monoidDrawing_empty :: "'c drawing" where
  "monoidDrawing_empty = Many []"

text \<open>
  \<^verbatim>\<open>renderShape\<close>. \<^verbatim>\<open>slice(0, -1)\<close> drops the last subpath, whatever it is;
  on the empty array it gives the empty array, as \<open>butlast\<close> does.
\<close>

fun renderShape :: "shape \<Rightarrow> path3d" where
  "renderShape (Composite shapes) = foldl (\<lambda>b a. b @ renderShape a) [] shapes"
| "renderShape (Path is_closed points) =
     (case points of
        [] \<Rightarrow> []
      | head # tail \<Rightarrow>
          (let path = foldl (\<lambda>a f. f a) (moveTo head []) (map lineTo tail)
           in if is_closed then butlast (closePath path) else path))"

section \<open>Canvas\<close>

text \<open>
  A \<^verbatim>\<open>Render<CanvasRenderingContext2D>\<close> reads the context, performs calls on it and
  returns it. The model of such an effect is the list of the calls it performs, in
  order; \<^verbatim>\<open>RIO.chain\<close> and \<^verbatim>\<open>RIO.chainFirst\<close> run one effect after the other, so
  they append, and the effect \<^verbatim>\<open>IO.of\<close>, like \<^verbatim>\<open>RIO.ask()\<close>, performs no call.
\<close>

datatype ctx_call =
    Ctx_save
  | Ctx_restore
  | Ctx_beginPath
  | Ctx_moveTo number number
  | Ctx_lineTo number number
  | Ctx_fill
  | Ctx_stroke
  | Ctx_fillStyle string
  | Ctx_strokeStyle string
  | Ctx_lineWidth number

type_synonym render = "ctx_call list"

definition C_setFillStyle :: "string \<Rightarrow> render" where
  "C_setFillStyle s = [Ctx_fillStyle s]"

definition C_setStrokeStyle :: "string \<Rightarrow> render" where
  "C_setStrokeStyle s = [Ctx_strokeStyle s]"

definition C_setLineWidth :: "number \<Rightarrow> render" where
  "C_setLineWidth w = [Ctx_lineWidth w]"

definition C_beginPath :: render where
  "C_beginPath = [Ctx_beginPath]"

text \<open>\<^verbatim>\<open>fill()\<close> and \<^verbatim>\<open>stroke()\<close> as the interpreter calls them, without arguments.\<close>

definition C_fill :: render where
  "C_fill = [Ctx_fill]"

definition C_stroke :: render where
  "C_stroke = [Ctx_stroke]"

text \<open>\<^verbatim>\<open>ctx.lineTo(p[0], p[1])\<close> and \<^verbatim>\<open>ctx.moveTo(p[0], p[1])\<close>\<close>

definition C_lineTo :: "vec \<Rightarrow> render" where
  "C_lineTo p = [Ctx_lineTo (vec_at 0 p) (vec_at 1 p)]"

definition C_moveTo :: "vec \<Rightarrow> render" where
  "C_moveTo p = [Ctx_moveTo (vec_at 0 p) (vec_at 1 p)]"

definition C_save :: render where
  "C_save = [Ctx_save]"

definition C_restore :: render where
  "C_restore = [Ctx_restore]"

definition withContext :: "render \<Rightarrow> render" where
  "withContext f = (C_save @ f) @ C_restore"

section \<open>The interpreter\<close>

text \<open>\<^verbatim>\<open>applyStyle(fa, f) = pipe(fa, O.fold(() => IO.of, f))\<close>\<close>

definition applyStyle :: "'a option \<Rightarrow> ('a \<Rightarrow> render) \<Rightarrow> render" where
  "applyStyle fa f = (case fa of None \<Rightarrow> [] | Some a \<Rightarrow> f a)"

definition VT :: mat where
  "VT =
     [[Fin 1, Fin 0, Fin 0, Fin 0],
      [Fin 0, Fin 1, Fin 0, Fin 0],
      [Fin 0, Fin 0, Fin 0, Fin 0],
      [Fin 0, Fin 0, Fin 0, Fin 1]]"

fun renderSubPath :: "vec list \<Rightarrow> render" where
  "renderSubPath [] = []"
| "renderSubPath (head # tail) = C_moveTo head @ concat (map C_lineTo tail)"

text \<open>
  \<^verbatim>\<open>toCoords\<close>: \<^verbatim>\<open>RNEA.fromReadonlyArray\<close> with \<^verbatim>\<open>RA.compact\<close> keeps the non-empty
  subpaths, \<^verbatim>\<open>RA.append(1)\<close> lifts each point, then each subpath is multiplied on the
  right by the transform and by \<open>VT\<close>.
\<close>

definition toCoords :: "shape \<Rightarrow> mat \<Rightarrow> mat list" where
  "toCoords sh transform =
     map (mul VT)
       (map (mul transform)
         (map (map (\<lambda>p. p @ [Fin 1]))
           (filter (\<lambda>sp. sp \<noteq> []) (renderShape sh))))"

text \<open>
  \<^verbatim>\<open>go\<close>, the loop of \<^verbatim>\<open>render\<close>. \<^verbatim>\<open>toCss\<close> comes from the module \<^verbatim>\<open>Color\<close> and is a
  parameter here, as is the type of colours.
\<close>

fun go :: "('c \<Rightarrow> string) \<Rightarrow> mat \<Rightarrow> 'c drawing \<Rightarrow> render" where
  "go toCss t (Many drawings) = concat (map (go toCss t) drawings)"
| "go toCss t (Scale sx sy sz d) = go toCss (mul (scale [sx, sy, sz]) t) d"
| "go toCss t (Rotate rx ry rz d) =
     go toCss
       (concat_mat (mul (rotateX (angle rx)) (rotateY (angle ry)))
                   (mul (rotateZ (angle rz)) t)) d"
| "go toCss t (Translate dx dy dz d) = go toCss (mul (translate [dx, dy, dz]) t) d"
| "go toCss t (Outline sh style) =
     withContext
       (applyStyle (outline_color style) (\<lambda>c. C_setStrokeStyle (toCss c))
        @ applyStyle (outline_lineWidth style) C_setLineWidth
        @ (C_beginPath @ concat (map renderSubPath (toCoords sh t)) @ C_stroke))"
| "go toCss t (Fill sh style) =
     withContext
       (applyStyle (fill_color style) (\<lambda>c. C_setFillStyle (toCss c))
        @ (C_beginPath @ concat (map renderSubPath (toCoords sh t)) @ C_fill))"

definition render :: "('c \<Rightarrow> string) \<Rightarrow> 'c drawing \<Rightarrow> render" where
  "render toCss drawing = go toCss identity drawing"

section \<open>Predicates of the statements\<close>

text \<open>Every subpath of a \<^verbatim>\<open>Path3D\<close> holds at least one point.\<close>

definition nonempty_subpaths :: "path3d \<Rightarrow> bool" where
  "nonempty_subpaths p \<longleftrightarrow> (\<forall>sp \<in> set p. sp \<noteq> [])"

text \<open>The paths built from the empty path by the three operations of the builder.\<close>

inductive reachable :: "path3d \<Rightarrow> bool" where
  reachable_empty: "reachable []"
| reachable_moveTo: "reachable p \<Longrightarrow> reachable (moveTo point p)"
| reachable_lineTo: "reachable p \<Longrightarrow> reachable (lineTo point p)"
| reachable_closePath: "reachable p \<Longrightarrow> reachable (closePath p)"








text \<open>The test \<^verbatim>\<open>x._tag === 'Many'\<close> of \<^verbatim>\<open>monoidDrawing.concat\<close>.\<close>

fun is_Many :: "'c drawing \<Rightarrow> bool" where
  "is_Many (Many ds) = True"
| "is_Many _ = False"

text \<open>
  The interpreter as the specification describes it, to compare \<open>go\<close> with: the
  leaves of a drawing, each with the transform accumulated on the way down, and the
  calls one leaf performs. \<open>Many\<close> hands the same transform to every child; \<open>Scale\<close>
  and \<open>Translate\<close> multiply their matrix on the right of the transform; \<open>Rotate\<close>
  passes the product of \<open>rotateY\<close> and \<open>rotateX\<close>, times the product of the transform
  and \<open>rotateZ\<close>. A leaf lifts every point of a non-empty subpath by a fourth
  coordinate 1, multiplies the subpath by the transform and then by \<open>VT\<close>, moves to the
  first point and draws lines to the others.
\<close>

datatype 'c leaf = FillLeaf shape "'c fillStyle" | OutlineLeaf shape "'c outlineStyle"

fun spec_leaves :: "mat \<Rightarrow> 'c drawing \<Rightarrow> (mat \<times> 'c leaf) list" where
  "spec_leaves T (Many ds) = concat (map (spec_leaves T) ds)"
| "spec_leaves T (Scale sx sy sz d) = spec_leaves (concat_mat T (scale [sx, sy, sz])) d"
| "spec_leaves T (Translate dx dy dz d) = spec_leaves (concat_mat T (translate [dx, dy, dz])) d"
| "spec_leaves T (Rotate ax ay az d) =
     spec_leaves (concat_mat (concat_mat (rotateY (angle ay)) (rotateX (angle ax)))
                             (concat_mat T (rotateZ (angle az)))) d"
| "spec_leaves T (Fill sh st) = [(T, FillLeaf sh st)]"
| "spec_leaves T (Outline sh st) = [(T, OutlineLeaf sh st)]"

definition spec_project :: "mat \<Rightarrow> vec list \<Rightarrow> mat" where
  "spec_project T sp = concat_mat (concat_mat (map (\<lambda>p. p @ [Fin 1]) sp) T) VT"

fun spec_path_calls :: "vec list \<Rightarrow> ctx_call list" where
  "spec_path_calls [] = []"
| "spec_path_calls (p # ps) =
     Ctx_moveTo (vec_at 0 p) (vec_at 1 p) # map (\<lambda>q. Ctx_lineTo (vec_at 0 q) (vec_at 1 q)) ps"

definition spec_subpaths :: "mat \<Rightarrow> shape \<Rightarrow> ctx_call list" where
  "spec_subpaths T sh =
     concat (map (\<lambda>sp. spec_path_calls (spec_project T sp))
                 (filter (\<lambda>sp. sp \<noteq> []) (renderShape sh)))"

fun spec_emit :: "('c \<Rightarrow> string) \<Rightarrow> mat \<times> 'c leaf \<Rightarrow> ctx_call list" where
  "spec_emit toCss (T, FillLeaf sh st) =
     [Ctx_save]
     @ (case fill_color st of None \<Rightarrow> [] | Some c \<Rightarrow> [Ctx_fillStyle (toCss c)])
     @ [Ctx_beginPath] @ spec_subpaths T sh @ [Ctx_fill, Ctx_restore]"
| "spec_emit toCss (T, OutlineLeaf sh st) =
     [Ctx_save]
     @ (case outline_color st of None \<Rightarrow> [] | Some c \<Rightarrow> [Ctx_strokeStyle (toCss c)])
     @ (case outline_lineWidth st of None \<Rightarrow> [] | Some w \<Rightarrow> [Ctx_lineWidth w])
     @ [Ctx_beginPath] @ spec_subpaths T sh @ [Ctx_stroke, Ctx_restore]"

section \<open>Numbers: rounding\<close>

text \<open>
  Integers below \<open>2 ^ 53\<close> in magnitude and the powers of two up to \<open>2 ^ 1023\<close> are
  doubles: rounding returns them. \<open>2 ^ 1024\<close> overflows.
\<close>

lemma round_even_of_int: "round_even (of_int n) = n"
  by (simp add: round_even_def)

lemma round_double_0: "round_double 0 = Fin 0"
  by (simp add: round_double_def)

lemma round_double_scaled:
  assumes "x \<noteq> 0" "\<lfloor>log 2 \<bar>x\<bar>\<rfloor> \<le> 52" "x = of_int n" "\<bar>x\<bar> < 2 ^ 1024"
  shows "round_double x = Fin x"
proof -
  define e where "e = max \<lfloor>log 2 \<bar>x\<bar>\<rfloor> (- 1022)"
  define k where "k = nat (52 - e)"
  have e: "e \<le> 52" using assms(2) by (simp add: e_def)
  then have u: "(2::real) powi (e - 52) = 1 / 2 ^ k"
    by (simp add: k_def power_int_def field_simps)
  have "x / (2 powi (e - 52)) = of_int (n * 2 ^ k)"
    by (simp add: u assms(3))
  then have "round_even (x / (2 powi (e - 52))) = n * 2 ^ k"
    by (simp only: round_even_of_int)
  then have r: "of_int (round_even (x / (2 powi (e - 52)))) * 2 powi (e - 52) = x"
    by (simp add: u assms(3))
  show ?thesis
    using assms(1,4) r by (simp add: round_double_def Let_def e_def [symmetric])
qed

lemma round_double_of_int:
  assumes "\<bar>n\<bar> < 2 ^ 53"
  shows "round_double (of_int n) = Fin (of_int n)"
proof (cases "n = 0")
  case True
  then show ?thesis by (simp add: round_double_0)
next
  case False
  let ?x = "of_int n :: real"
  have pos: "0 < \<bar>?x\<bar>" using False by simp
  have lt: "\<bar>?x\<bar> < 2 ^ 53"
    using assms by (metis of_int_abs of_int_less_numeral_power_cancel_iff)
  then have "log 2 \<bar>?x\<bar> < 53"
    using pos by (simp add: log_less_iff powr_realpow)
  then have fl: "\<lfloor>log 2 \<bar>?x\<bar>\<rfloor> \<le> 52" by linarith
  have "\<bar>?x\<bar> < 2 ^ 1024"
  proof -
    have "(2::real) ^ 53 \<le> 2 ^ 1024" by (rule power_increasing) simp_all
    with lt show ?thesis by linarith
  qed
  with False fl show ?thesis by (intro round_double_scaled [where n = n]) simp_all
qed

lemma round_double_numeral:
  "(numeral k :: int) < 2 ^ 53 \<Longrightarrow> round_double (numeral k) = Fin (numeral k)"
  using round_double_of_int [of "numeral k"] by simp

lemma round_double_neg_numeral:
  "(numeral k :: int) < 2 ^ 53 \<Longrightarrow> round_double (- numeral k) = Fin (- numeral k)"
  using round_double_of_int [of "- numeral k"] by simp

lemma round_double_1: "round_double 1 = Fin 1"
  using round_double_of_int [of 1] by simp

lemma round_double_power2:
  "round_double (2 ^ n) = (if n < 1024 then Fin (2 ^ n) else PosInf)"
proof -
  have l: "\<lfloor>log 2 \<bar>(2::real) ^ n\<bar>\<rfloor> = int n" by simp
  have e: "max (int n) (- 1022) = int n" by simp
  have q: "(2::real) ^ n / 2 powi (int n - 52) = of_int (2 ^ 52)"
    by (simp add: power_int_diff)
  have "round_even ((2::real) ^ n / 2 powi (int n - 52)) = 2 ^ 52"
    unfolding q by (rule round_even_of_int)
  then have r: "of_int (round_even ((2::real) ^ n / 2 powi (int n - 52))) * 2 powi (int n - 52)
                  = (2::real) ^ n"
    by (simp add: power_int_diff)
  have c: "(2::real) ^ 1024 \<le> 2 ^ n \<longleftrightarrow> 1024 \<le> n"
    by (rule power_increasing_iff) simp
  show ?thesis
    unfolding round_double_def l e Let_def r
    using c by (simp del: power_increasing_iff)
qed

lemmas number_arith =
  plus_number_def times_number_def uminus_number_def round_double_numeral round_double_neg_numeral
  round_double_0 round_double_1

lemmas mat_eval =
  concat_mat_def transpose_mat_def row_def vec_at_def dot_def zipWith_def upt_conv_Cons

section \<open>Vec: the dot product\<close>

lemma zipWith_map2: "as \<noteq> [] \<Longrightarrow> bs \<noteq> [] \<Longrightarrow> zipWith as bs f = map2 f as bs"
  by (cases as; cases bs) (simp_all add: zipWith_def vec_at_def)

lemma map2_nth:
  "length as = length bs \<Longrightarrow> map2 f as bs = map (\<lambda>i. f (as ! i) (bs ! i)) [0..<length as]"
  by (rule nth_equalityI) simp_all

lemma dot_equal_lengths:
  assumes "a \<noteq> []" "length a = length b"
  shows "dot b a = foldl (+) (Fin 0) (map (\<lambda>i. a ! i * b ! i) [0..<length a])"
proof -
  from assms have "b \<noteq> []" by auto
  with assms show ?thesis
    by (simp add: dot_def zipWith_map2 map2_nth)
qed

lemma dot_truncates:
  assumes "a \<noteq> []" "b \<noteq> []"
  shows "dot b a = dot (take (min (length a) (length b)) b) (take (min (length a) (length b)) a)"
proof -
  let ?n = "min (length a) (length b)"
  from assms have n: "0 < ?n" by simp
  then have ne: "take ?n a \<noteq> []" "take ?n b \<noteq> []" using assms by auto
  have "zip (take ?n a) (take ?n b) = take ?n (zip a b)" by (simp add: take_zip)
  also have "\<dots> = zip a b" by simp
  finally show ?thesis
    using assms ne by (simp add: dot_def zipWith_map2)
qed

text \<open>
  Claim C5, amended. On two vectors of the same length \<^verbatim>\<open>dot(b)(a)\<close> is the sum, taken
  from the left and starting at 0 with the addition and multiplication of numbers, of
  the products \<open>a[i] * b[i]\<close>. On two vectors of different lengths nothing fails:
  the result is the dot product of the two vectors cut to the shorter length.
\<close>

theorem dot_sum_and_truncation:
  "(a \<noteq> [] \<and> length a = length b
      \<longrightarrow> dot b a = foldl (+) (Fin 0) (map (\<lambda>i. a ! i * b ! i) [0..<length a]))
   \<and> (a \<noteq> [] \<and> b \<noteq> []
      \<longrightarrow> dot b a = dot (take (min (length a) (length b)) b)
                        (take (min (length a) (length b)) a))"
  using dot_equal_lengths [of a b] dot_truncates [of a b] by blast

theorem dot_sum_and_truncation_witness:
  "dot [Fin 1, Fin 2, Fin 1] [Fin 1, Fin 2, Fin (- 3)] = Fin 2
   \<and> dot [Fin 1, Fin 2] [Fin 1, Fin 2, Fin 3] = dot [Fin 1, Fin 2] [Fin 1, Fin 2]"
  using dot_sum_and_truncation [of "[Fin 1, Fin 2, Fin (- 3)]" "[Fin 1, Fin 2, Fin 1]"]
    dot_sum_and_truncation [of "[Fin 1, Fin 2, Fin 3]" "[Fin 1, Fin 2]"]
  by (simp add: upt_conv_Cons number_arith)

theorem dot_mismatch_counterexample:
  "length [Fin 1, Fin 2, Fin 3] \<noteq> length [Fin 1, Fin 2]
   \<and> dot [Fin 1, Fin 2] [Fin 1, Fin 2, Fin 3] = Fin 5
   \<and> dot [Fin 1, Fin 2, Fin 3] [Fin 1, Fin 2] = Fin 5
   \<and> dot [Fin 1, Fin 2] [Fin 1, Fin 2] = Fin 5"
  by (simp add: dot_def zipWith_def vec_at_def number_arith)

lemma dot_overflow:
  "dot [Fin 1, Fin 1] [Fin (2 ^ 1023), Fin (2 ^ 1023)] = PosInf"
proof -
  have a: "round_double (2 ^ 1023 * 1) = Fin (2 ^ 1023)"
    using round_double_power2 [of 1023] by simp
  have b: "round_double (0 + 2 ^ 1023) = Fin (2 ^ 1023)"
    using round_double_power2 [of 1023] by simp
  have "(2::real) ^ 1023 + 2 ^ 1023 = 2 ^ 1024" by simp
  then have c: "round_double (2 ^ 1023 + 2 ^ 1023) = PosInf"
    using round_double_power2 [of 1024] by simp
  show ?thesis
    unfolding dot_def zipWith_def vec_at_def plus_number_def times_number_def
    using a b c by simp
qed

section \<open>Mat: the product of matrices\<close>












section \<open>Mat: the rotations at angle zero\<close>

text \<open>
  Claim C6. At angle 0 the matrices of \<^verbatim>\<open>rotateX\<close> and \<^verbatim>\<open>rotateY\<close> are the identity.
  The matrix of \<^verbatim>\<open>rotateZ\<close> is not: its third row is zero throughout, where the
  rotation about the third axis has a one on the diagonal.
\<close>

theorem rotate_at_zero:
  "rotateX (Fin 0) = identity \<and> rotateY (Fin 0) = identity
   \<and> rotateZ (Fin 0) =
       [[Fin 1, Fin 0, Fin 0, Fin 0],
        [Fin 0, Fin 1, Fin 0, Fin 0],
        [Fin 0, Fin 0, Fin 0, Fin 0],
        [Fin 0, Fin 0, Fin 0, Fin 1]]
   \<and> rotateZ (Fin 0) \<noteq> identity"
  by (simp add: rotateX_def rotateY_def rotateZ_def identity_def uminus_number_def)

lemma rotateZ_never_identity: "rotateZ a \<noteq> identity"
  by (simp add: rotateZ_def identity_def)

section \<open>Shape: folding points into a path\<close>

lemma foldl_append_points:
  "foldl (\<lambda>b a. Path c (path_points b @ [a])) (Path c0 ps) xs
     = Path (if xs = [] then c0 else c) (ps @ xs)"
  by (induction xs arbitrary: c0 ps) simp_all

text \<open>
  Claim C9, amended. Let the \<^verbatim>\<open>Foldable\<close> instance reduce the container \<open>fa\<close> as
  a left fold over the list \<open>xs\<close> of its elements. Then \<^verbatim>\<open>path(F)(fa)\<close> is the
  path with \<^verbatim>\<open>closed = false\<close> and the points \<open>xs\<close>, and \<^verbatim>\<open>closed(F)(fa)\<close> is the path
  with the points \<open>xs\<close> whose flag \<^verbatim>\<open>closed\<close> is true exactly when \<open>xs\<close> is not
  empty: on the empty sequence the fold returns its start value \<^verbatim>\<open>monoidPath.empty\<close>,
  whose flag is false.
\<close>

theorem closed_path_fold:
  "(\<forall>b f. F fa b f = foldl f b xs)
     \<longrightarrow> closed_path F fa = Path (xs \<noteq> []) xs \<and> path F fa = Path False xs"
  by (simp add: closed_path_def path_def monoidPath_empty_def foldl_append_points)

theorem closed_path_fold_witness:
  "(\<forall>b f. reduce_array [[Fin 1, Fin 2, Fin 3], [Fin 4, Fin 5, Fin 6]] b f
             = foldl f b [[Fin 1, Fin 2, Fin 3], [Fin 4, Fin 5, Fin 6]])
   \<and> closed_path reduce_array [[Fin 1, Fin 2, Fin 3], [Fin 4, Fin 5, Fin 6]]
       = Path True [[Fin 1, Fin 2, Fin 3], [Fin 4, Fin 5, Fin 6]]
   \<and> path reduce_array [[Fin 1, Fin 2, Fin 3], [Fin 4, Fin 5, Fin 6]]
       = Path False [[Fin 1, Fin 2, Fin 3], [Fin 4, Fin 5, Fin 6]]"
  using closed_path_fold [of reduce_array "[[Fin 1, Fin 2, Fin 3], [Fin 4, Fin 5, Fin 6]]"
      "[[Fin 1, Fin 2, Fin 3], [Fin 4, Fin 5, Fin 6]]"]
  by (simp add: reduce_array_def)

theorem closed_path_empty_counterexample:
  "closed_path reduce_array [] = Path False [] \<and> closed_path reduce_array [] \<noteq> Path True []"
  by (simp add: closed_path_def reduce_array_def monoidPath_empty_def)

section \<open>Path3D: closing a path\<close>

lemma strict_eq_imp_eq: "strict_eq x y \<Longrightarrow> x = y"
  by (cases x; cases y) simp_all

lemma strict_eq_refl: "x \<noteq> NaN \<Longrightarrow> strict_eq x x"
  by (cases x) simp_all

lemma same_point_vector3:
  assumes "length e = 3" "length s = 3" "NaN \<notin> set e" "NaN \<notin> set s"
  shows "same_point e s \<longleftrightarrow> e = s"
proof
  assume sp: "same_point e s"
  have "e ! i = s ! i" if "i < 3" for i
  proof -
    from that have "i = 0 \<or> i = 1 \<or> i = 2" by arith
    with sp assms(1,2) show ?thesis
      by (auto simp: same_point_def vec_at_def dest: strict_eq_imp_eq)
  qed
  with assms(1,2) show "e = s" by (simp add: list_eq_iff_nth_eq)
next
  assume "e = s"
  moreover have "s ! i \<noteq> NaN" if "i < 3" for i
    using assms(2,4) that by (metis nth_mem)
  ultimately show "same_point e s"
    using assms(2) by (simp add: same_point_def vec_at_def strict_eq_refl)
qed

text \<open>
  Claim C4. \<^verbatim>\<open>closePath(p)\<close> returns \<open>p\<close> unchanged when \<open>p\<close> is empty, when the last
  subpath has at most one point, or when the final point of the last subpath equals
  its first point component by component (the test \<open>same_point\<close>, which on
  three-component points without \<^verbatim>\<open>NaN\<close> is equality of the points). Otherwise the
  last subpath is extended by a copy of its first point and one new subpath holding
  only that point is appended. The example of the test suite is the last conjunct.
\<close>

theorem closePath_cases:
  "closePath p =
     (if p = [] \<or> length (last p) \<le> 1 \<or> same_point (last (last p)) (hd (last p)) then p
      else butlast p @ [last p @ [hd (last p)], [hd (last p)]])
   \<and> (length e = 3 \<and> length s = 3 \<and> NaN \<notin> set e \<and> NaN \<notin> set s
        \<longrightarrow> (same_point e s \<longleftrightarrow> e = s))
   \<and> closePath (lineTo [Fin 7, Fin 8, Fin 9] [[[Fin 1, Fin 2, Fin 3], [Fin 4, Fin 5, Fin 6]]])
       = [[[Fin 1, Fin 2, Fin 3], [Fin 4, Fin 5, Fin 6], [Fin 7, Fin 8, Fin 9], [Fin 1, Fin 2, Fin 3]],
          [[Fin 1, Fin 2, Fin 3]]]"
proof (intro conjI impI)
  show "closePath p =
     (if p = [] \<or> length (last p) \<le> 1 \<or> same_point (last (last p)) (hd (last p)) then p
      else butlast p @ [last p @ [hd (last p)], [hd (last p)]])"
    by (auto simp: closePath_def Let_def)
next
  assume "length e = 3 \<and> length s = 3 \<and> NaN \<notin> set e \<and> NaN \<notin> set s"
  then show "same_point e s \<longleftrightarrow> e = s" using same_point_vector3 by blast
next
  show "closePath (lineTo [Fin 7, Fin 8, Fin 9] [[[Fin 1, Fin 2, Fin 3], [Fin 4, Fin 5, Fin 6]]])
       = [[[Fin 1, Fin 2, Fin 3], [Fin 4, Fin 5, Fin 6], [Fin 7, Fin 8, Fin 9], [Fin 1, Fin 2, Fin 3]],
          [[Fin 1, Fin 2, Fin 3]]]"
    by (simp add: closePath_def lineTo_def isPointFinite_def vec_at_def same_point_def Let_def)
qed

theorem closePath_cases_witness:
  "closePath [[[Fin 1, Fin 2, Fin 3], [Fin 4, Fin 5, Fin 6]]]
     = [[[Fin 1, Fin 2, Fin 3], [Fin 4, Fin 5, Fin 6], [Fin 1, Fin 2, Fin 3]], [[Fin 1, Fin 2, Fin 3]]]
   \<and> same_point [Fin 1, Fin 2, Fin 3] [Fin 1, Fin 2, Fin 3]
   \<and> \<not> same_point [Fin 4, Fin 5, Fin 6] [Fin 1, Fin 2, Fin 3]"
  using closePath_cases [of "[[[Fin 1, Fin 2, Fin 3], [Fin 4, Fin 5, Fin 6]]]"
      "[Fin 1, Fin 2, Fin 3]" "[Fin 1, Fin 2, Fin 3]"]
    closePath_cases [of "[]" "[Fin 4, Fin 5, Fin 6]" "[Fin 1, Fin 2, Fin 3]"]
  by (simp add: same_point_def vec_at_def)

section \<open>Path3D: subpaths are never empty\<close>

lemma moveTo_nonempty: "nonempty_subpaths p \<Longrightarrow> nonempty_subpaths (moveTo point p)"
  by (simp add: moveTo_def nonempty_subpaths_def)

lemma lineTo_nonempty: "nonempty_subpaths p \<Longrightarrow> nonempty_subpaths (lineTo point p)"
  by (auto simp: lineTo_def moveTo_def nonempty_subpaths_def dest: in_set_butlastD)

lemma closePath_nonempty: "nonempty_subpaths p \<Longrightarrow> nonempty_subpaths (closePath p)"
  by (auto simp: closePath_def Let_def nonempty_subpaths_def dest: in_set_butlastD)

lemma reachable_nonempty: "reachable p \<Longrightarrow> nonempty_subpaths p"
proof (induction rule: reachable.induct)
  case reachable_empty
  show ?case by (simp add: nonempty_subpaths_def)
next
  case (reachable_moveTo p point)
  then show ?case by (simp add: moveTo_nonempty)
next
  case (reachable_lineTo p point)
  then show ?case by (simp add: lineTo_nonempty)
next
  case (reachable_closePath p)
  then show ?case by (simp add: closePath_nonempty)
qed

text \<open>
  Claim C10. Each of \<^verbatim>\<open>moveTo\<close>, \<^verbatim>\<open>lineTo\<close> and \<^verbatim>\<open>closePath\<close> keeps every subpath
  non-empty, whatever the point (finite or not), and so every path built from the
  empty path by these operations has only non-empty subpaths.
\<close>

theorem builder_subpaths_nonempty:
  "(nonempty_subpaths p \<longrightarrow> nonempty_subpaths (moveTo point p))
   \<and> (nonempty_subpaths p \<longrightarrow> nonempty_subpaths (lineTo point p))
   \<and> (nonempty_subpaths p \<longrightarrow> nonempty_subpaths (closePath p))
   \<and> (reachable p \<longrightarrow> nonempty_subpaths p)"
  by (simp add: moveTo_nonempty lineTo_nonempty closePath_nonempty reachable_nonempty)

theorem builder_subpaths_nonempty_witness:
  "reachable (closePath (lineTo [Fin 4, Fin 5, Fin 6] (moveTo [Fin 1, Fin 2, Fin 3] [])))
   \<and> nonempty_subpaths (closePath (lineTo [Fin 4, Fin 5, Fin 6] (moveTo [Fin 1, Fin 2, Fin 3] [])))
   \<and> closePath (lineTo [Fin 4, Fin 5, Fin 6] (moveTo [Fin 1, Fin 2, Fin 3] []))
       = [[[Fin 1, Fin 2, Fin 3], [Fin 4, Fin 5, Fin 6], [Fin 1, Fin 2, Fin 3]], [[Fin 1, Fin 2, Fin 3]]]"
proof -
  let ?p = "closePath (lineTo [Fin 4, Fin 5, Fin 6] (moveTo [Fin 1, Fin 2, Fin 3] []))"
  have r: "reachable ?p"
    by (intro reachable.intros)
  have e: "?p = [[[Fin 1, Fin 2, Fin 3], [Fin 4, Fin 5, Fin 6], [Fin 1, Fin 2, Fin 3]], [[Fin 1, Fin 2, Fin 3]]]"
    by (simp add: closePath_def lineTo_def moveTo_def isPointFinite_def vec_at_def same_point_def Let_def)
  from r builder_subpaths_nonempty [of ?p] have "nonempty_subpaths ?p" by blast
  with r e show ?thesis by blast
qed

section \<open>Shape to Path3D: closed paths\<close>

text \<open>
  The builder drops the points that are not finite, so the path built from the points
  of a shape holds the finite points, in one subpath, or nothing.
\<close>

lemma lineTo_fold_nonempty:
  "p \<noteq> [] \<Longrightarrow>
   foldl (\<lambda>a f. f a) p (map lineTo ps) = butlast p @ [last p @ filter isPointFinite ps]"
proof (induction ps arbitrary: p)
  case Nil
  then show ?case by simp
next
  case (Cons q ps)
  show ?case
  proof (cases "isPointFinite q")
    case True
    with Cons.prems have "lineTo q p = butlast p @ [last p @ [q]]"
      by (simp add: lineTo_def)
    with True Cons.IH [of "butlast p @ [last p @ [q]]"] show ?thesis by simp
  next
    case False
    then have "lineTo q p = p" by (simp add: lineTo_def)
    with False Cons.IH [OF Cons.prems] show ?thesis by simp
  qed
qed

lemma lineTo_fold_empty:
  "foldl (\<lambda>a f. f a) [] (map lineTo ps)
     = (if filter isPointFinite ps = [] then [] else [filter isPointFinite ps])"
proof (induction ps)
  case Nil
  then show ?case by simp
next
  case (Cons q ps)
  show ?case
  proof (cases "isPointFinite q")
    case True
    then have "lineTo q [] = [[q]]" by (simp add: lineTo_def moveTo_def)
    with True lineTo_fold_nonempty [of "[[q]]" ps] show ?thesis by simp
  next
    case False
    then have "lineTo q [] = []" by (simp add: lineTo_def)
    with False Cons.IH show ?thesis by simp
  qed
qed

lemma path_of_points:
  "foldl (\<lambda>a f. f a) (moveTo h []) (map lineTo t)
     = (if filter isPointFinite (h # t) = [] then [] else [filter isPointFinite (h # t)])"
proof (cases "isPointFinite h")
  case True
  then have "moveTo h [] = [[h]]" by (simp add: moveTo_def)
  with True lineTo_fold_nonempty [of "[[h]]" t] show ?thesis by simp
next
  case False
  then have "moveTo h [] = []" by (simp add: moveTo_def)
  with False lineTo_fold_empty [of t] show ?thesis by simp
qed

lemma renderShape_open:
  "renderShape (Path False points)
     = (if filter isPointFinite points = [] then [] else [filter isPointFinite points])"
  by (cases points) (simp_all add: path_of_points Let_def del: filter.simps)

lemma renderShape_closed_butlast:
  "renderShape (Path True points)
     = butlast (closePath (if filter isPointFinite points = [] then []
                           else [filter isPointFinite points]))"
proof (cases points)
  case Nil
  then show ?thesis by (simp add: closePath_def)
next
  case (Cons h t)
  then show ?thesis by (simp add: path_of_points Let_def del: filter.simps)
qed

lemma closePath_single_subpath:
  "2 \<le> length ps \<Longrightarrow> \<not> same_point (last ps) (hd ps)
     \<Longrightarrow> closePath [ps] = [ps @ [hd ps], [hd ps]]"
  by (auto simp: closePath_def Let_def)

lemma renderShape_closed_all:
  "renderShape (Path True points)
     = (let ps = filter isPointFinite points
        in if 2 \<le> length ps \<and> \<not> same_point (last ps) (hd ps) then [ps @ [hd ps]] else [])"
  unfolding renderShape_closed_butlast
  by (auto simp: closePath_def Let_def)

text \<open>
  Where at least two finite points remain and the last differs from the first, a
  closed path renders to one subpath that returns to its first point.
\<close>

lemma renderShape_closed_distinct_ends:
  "(filter isPointFinite points = [] \<longrightarrow> renderShape (Path True points) = [])
   \<and> (2 \<le> length (filter isPointFinite points)
       \<and> \<not> same_point (last (filter isPointFinite points)) (hd (filter isPointFinite points))
      \<longrightarrow> closePath [filter isPointFinite points]
            = [filter isPointFinite points @ [hd (filter isPointFinite points)],
               [hd (filter isPointFinite points)]]
          \<and> renderShape (Path True points)
            = [filter isPointFinite points @ [hd (filter isPointFinite points)]]
          \<and> length (renderShape (Path True points)) = 1
          \<and> last (hd (renderShape (Path True points))) = hd (hd (renderShape (Path True points))))"
proof (intro conjI impI)
  assume "filter isPointFinite points = []"
  then show "renderShape (Path True points) = []"
    by (simp add: renderShape_closed_all Let_def del: renderShape.simps)
next
  let ?ps = "filter isPointFinite points"
  assume a: "2 \<le> length ?ps \<and> \<not> same_point (last ?ps) (hd ?ps)"
  then show "closePath [?ps] = [?ps @ [hd ?ps], [hd ?ps]]"
    by (simp add: closePath_single_subpath)
  from a show r: "renderShape (Path True points) = [?ps @ [hd ?ps]]"
    by (simp add: renderShape_closed_all Let_def del: renderShape.simps)
  then show "length (renderShape (Path True points)) = 1"
    by (simp del: renderShape.simps)
  from a have "?ps \<noteq> []" by auto
  with r show "last (hd (renderShape (Path True points))) = hd (hd (renderShape (Path True points)))"
    by (simp del: renderShape.simps)
qed

text \<open>
  Claim C1. A closed path with at least one point should render to exactly one
  subpath, closed by \<^verbatim>\<open>closePath\<close> and freed of the trailing one-point subpath, whose
  last point is its first. \<^verbatim>\<open>renderShape\<close> removes the last subpath after \<^verbatim>\<open>closePath\<close>
  in every case. On a closed path whose last point already is its first, and on a
  closed path of a single point, \<^verbatim>\<open>closePath\<close> changes nothing and adds no
  one-point subpath, so the subpath removed is the path itself: \<^verbatim>\<open>renderShape\<close>
  returns no subpath, and a filled closed square given with its start point repeated
  draws nothing.
\<close>

theorem renderShape_closed_drops_subpath:
  "closePath [[[Fin 0, Fin 0, Fin 0], [Fin 1, Fin 0, Fin 0], [Fin 1, Fin 1, Fin 0],
               [Fin 0, Fin 0, Fin 0]]]
     = [[[Fin 0, Fin 0, Fin 0], [Fin 1, Fin 0, Fin 0], [Fin 1, Fin 1, Fin 0],
         [Fin 0, Fin 0, Fin 0]]]
   \<and> renderShape (Path True [[Fin 0, Fin 0, Fin 0], [Fin 1, Fin 0, Fin 0],
                             [Fin 1, Fin 1, Fin 0], [Fin 0, Fin 0, Fin 0]]) = []
   \<and> render toCss
        (Fill (Path True [[Fin 0, Fin 0, Fin 0], [Fin 1, Fin 0, Fin 0],
                          [Fin 1, Fin 1, Fin 0], [Fin 0, Fin 0, Fin 0]])
              (FillStyle (Some RED)))
     = [Ctx_save, Ctx_fillStyle (toCss RED), Ctx_beginPath, Ctx_fill, Ctx_restore]
   \<and> renderShape (Path True [[Fin 1, Fin 2, Fin 3]]) = []"
proof -
  let ?pts = "[[Fin 0, Fin 0, Fin 0], [Fin 1, Fin 0, Fin 0], [Fin 1, Fin 1, Fin 0],
               [Fin 0, Fin 0, Fin 0]]"
  have c: "closePath [?pts] = [?pts]"
    by (simp add: closePath_def same_point_def vec_at_def Let_def)
  have r: "renderShape (Path True ?pts) = []"
    by (simp add: closePath_def lineTo_def moveTo_def isPointFinite_def vec_at_def
        same_point_def Let_def)
  have f: "render toCss (Fill (Path True ?pts) (FillStyle (Some RED)))
     = [Ctx_save, Ctx_fillStyle (toCss RED), Ctx_beginPath, Ctx_fill, Ctx_restore]"
    unfolding render_def go.simps toCoords_def r
    by (simp add: withContext_def applyStyle_def C_save_def C_restore_def C_beginPath_def
        C_fill_def C_setFillStyle_def)
  have s: "renderShape (Path True [[Fin 1, Fin 2, Fin 3]]) = []"
    by (simp add: closePath_def moveTo_def isPointFinite_def vec_at_def Let_def)
  from c r f s show ?thesis by blast
qed

section \<open>Drawing: the combination of drawings\<close>

lemma concat_Many_left: "\<not> is_Many y \<Longrightarrow> monoidDrawing_concat (Many xs) y = Many (xs @ [y])"
  by (cases y) simp_all

lemma concat_Many_right: "\<not> is_Many x \<Longrightarrow> monoidDrawing_concat x (Many ys) = Many (x # ys)"
  by (cases x) simp_all

lemma concat_neither:
  "\<not> is_Many x \<Longrightarrow> \<not> is_Many y \<Longrightarrow> monoidDrawing_concat x y = Many [x, y]"
  by (cases x; cases y) simp_all

lemma concat_general:
  "monoidDrawing_concat x y =
     Many ((case x of Many xs \<Rightarrow> xs | _ \<Rightarrow> [x]) @ (case y of Many ys \<Rightarrow> ys | _ \<Rightarrow> [y]))"
  by (cases x; cases y) simp_all

lemma concat_assoc:
  "monoidDrawing_concat (monoidDrawing_concat x y) z
     = monoidDrawing_concat x (monoidDrawing_concat y z)"
  by (simp add: concat_general [of "monoidDrawing_concat x y" z]
      concat_general [of x "monoidDrawing_concat y z"])
     (simp add: concat_general [of x y] concat_general [of y z])

lemma concat_empty_Many:
  "monoidDrawing_concat monoidDrawing_empty (Many xs) = Many xs"
  "monoidDrawing_concat (Many xs) monoidDrawing_empty = Many xs"
  by (simp_all add: monoidDrawing_empty_def)

lemma concat_empty_other:
  "\<not> is_Many x \<Longrightarrow> monoidDrawing_concat monoidDrawing_empty x = Many [x]"
  "\<not> is_Many x \<Longrightarrow> monoidDrawing_concat x monoidDrawing_empty = Many [x]"
  by (cases x; simp add: monoidDrawing_empty_def)+

lemma go_Many_single: "go toCss t (Many [x]) = go toCss t x"
  by simp

text \<open>
  Claim C7, amended. \<^verbatim>\<open>monoidDrawing.concat\<close> merges the children when both
  arguments are \<open>Many\<close>, appends or prepends the other argument when exactly one is,
  and wraps the two otherwise; it is associative. \<open>Many []\<close> is a two-sided identity
  on the drawings that are themselves \<open>Many\<close>. On any other drawing \<open>x\<close> the
  combination with \<open>Many []\<close>, on either side, is \<open>Many [x]\<close>, which the interpreter
  renders exactly as it renders \<open>x\<close>.
\<close>

theorem monoidDrawing_laws:
  "monoidDrawing_concat (Many xs) (Many ys) = Many (xs @ ys)
   \<and> (\<not> is_Many y \<longrightarrow> monoidDrawing_concat (Many xs) y = Many (xs @ [y]))
   \<and> (\<not> is_Many x \<longrightarrow> monoidDrawing_concat x (Many ys) = Many (x # ys))
   \<and> (\<not> is_Many x \<and> \<not> is_Many y \<longrightarrow> monoidDrawing_concat x y = Many [x, y])
   \<and> monoidDrawing_concat (monoidDrawing_concat x y) z
       = monoidDrawing_concat x (monoidDrawing_concat y z)
   \<and> monoidDrawing_concat monoidDrawing_empty (Many xs) = Many xs
   \<and> monoidDrawing_concat (Many xs) monoidDrawing_empty = Many xs
   \<and> (\<not> is_Many x \<longrightarrow> monoidDrawing_concat monoidDrawing_empty x = Many [x]
                       \<and> monoidDrawing_concat x monoidDrawing_empty = Many [x])
   \<and> go toCss t (Many [x]) = go toCss t x"
  using concat_assoc [of x y z]
  by (simp add: concat_Many_left concat_Many_right concat_neither concat_empty_Many
      concat_empty_other)

theorem monoidDrawing_laws_witness:
  "\<not> is_Many (Fill (Path False []) (FillStyle (None :: unit option)))
   \<and> monoidDrawing_concat (Many [Fill (Path False []) (FillStyle None)])
        (Fill (Path False []) (FillStyle (None :: unit option)))
       = Many [Fill (Path False []) (FillStyle None), Fill (Path False []) (FillStyle None)]
   \<and> monoidDrawing_concat (Fill (Path False []) (FillStyle (None :: unit option)))
        (Fill (Path False []) (FillStyle None))
       = Many [Fill (Path False []) (FillStyle None), Fill (Path False []) (FillStyle None)]
   \<and> monoidDrawing_concat monoidDrawing_empty (Fill (Path False []) (FillStyle (None :: unit option)))
       = Many [Fill (Path False []) (FillStyle None)]"
  using monoidDrawing_laws [of "[Fill (Path False []) (FillStyle (None :: unit option))]" "[]"
      "Fill (Path False []) (FillStyle None)" "Fill (Path False []) (FillStyle None)"]
  by simp

theorem monoidDrawing_identity_counterexample:
  "monoidDrawing_concat monoidDrawing_empty (Fill (Path False []) (FillStyle (None :: unit option)))
     \<noteq> Fill (Path False []) (FillStyle None)
   \<and> monoidDrawing_concat (Fill (Path False []) (FillStyle (None :: unit option))) monoidDrawing_empty
     \<noteq> Fill (Path False []) (FillStyle None)"
  by (simp add: monoidDrawing_empty_def)

section \<open>The interpreter: rotation nodes\<close>

text \<open>
  The interpreter performs, for every drawing and every transform, the calls of the
  leaves of the drawing, each under the transform accumulated on the way to it.
\<close>

lemma lineTo_calls:
  "concat (map C_lineTo ps) = map (\<lambda>q. Ctx_lineTo (vec_at 0 q) (vec_at 1 q)) ps"
  by (induction ps) (simp_all add: C_lineTo_def)

lemma renderSubPath_spec: "renderSubPath sp = spec_path_calls sp"
  by (cases sp) (simp_all add: C_moveTo_def lineTo_calls)

lemma concat_map_concat:
  "concat (map (\<lambda>x. concat (f x)) xs) = concat (concat (map f xs))"
  by (induction xs) simp_all

lemma toCoords_spec:
  "concat (map renderSubPath (toCoords sh T)) = spec_subpaths T sh"
  by (simp add: toCoords_def spec_subpaths_def spec_project_def mul_def renderSubPath_spec comp_def)

lemma go_spec: "go toCss t d = concat (map (spec_emit toCss) (spec_leaves t d))"
proof (induction toCss t d rule: go.induct)
  case (1 toCss t drawings)
  then show ?case
    by (simp add: map_concat concat_map_concat comp_def cong: map_cong)
next
  case (2 toCss t sx sy sz d)
  then show ?case by (simp add: mul_def)
next
  case (3 toCss t rx ry rz d)
  then show ?case by (simp add: mul_def)
next
  case (4 toCss t dx dy dz d)
  then show ?case by (simp add: mul_def)
next
  case (5 toCss t sh style)
  show ?case
    by (simp add: withContext_def applyStyle_def C_save_def C_restore_def C_beginPath_def
        C_stroke_def C_setStrokeStyle_def C_setLineWidth_def toCoords_spec
        split: option.split)
next
  case (6 toCss t sh style)
  show ?case
    by (simp add: withContext_def applyStyle_def C_save_def C_restore_def C_beginPath_def
        C_fill_def C_setFillStyle_def toCoords_spec split: option.split)
qed

text \<open>
  Claim C3. At a node \<open>Rotate ax ay az child\<close> reached with the accumulated transform
  \<open>t\<close>, the interpreter renders \<open>child\<close> under the product of \<open>rotateY ay\<close> times
  \<open>rotateX ax\<close> on the left and \<open>t\<close> times \<open>rotateZ az\<close> on the right: its calls are
  those of the leaves of \<open>child\<close> with the transforms accumulated from that product,
  so a filled shape directly below the node has its lifted points multiplied by that
  product and then by \<open>VT\<close>. \<^verbatim>\<open>mul(B)(A)\<close> is \<^verbatim>\<open>concat(A, B)\<close>. The last conjunct runs
  the interpreter on a rotation by zero degrees below a scaling by 2, 3 and 4.
\<close>

theorem go_Rotate:
  "go toCss t (Rotate ax ay az child)
     = concat (map (spec_emit toCss)
         (spec_leaves (concat_mat (concat_mat (rotateY (angle ay)) (rotateX (angle ax)))
                                  (concat_mat t (rotateZ (angle az)))) child))
   \<and> go toCss t (Rotate ax ay az (Fill sh st))
     = spec_emit toCss (concat_mat (concat_mat (rotateY (angle ay)) (rotateX (angle ax)))
                                   (concat_mat t (rotateZ (angle az))), FillLeaf sh st)
   \<and> go toCss t (Rotate ax ay az child)
     = go toCss (concat_mat (concat_mat (rotateY (angle ay)) (rotateX (angle ax)))
                            (concat_mat t (rotateZ (angle az)))) child
   \<and> mul B A = concat_mat A B
   \<and> render toCss (Scale (Fin 2) (Fin 3) (Fin 4)
        (Rotate (Degrees (Fin 0)) (Degrees (Fin 0)) (Degrees (Fin 0))
           (Fill (Path False [[Fin 1, Fin 1, Fin 1], [Fin 2, Fin 1, Fin 5]]) (FillStyle None))))
     = [Ctx_save, Ctx_beginPath, Ctx_moveTo (Fin 2) (Fin 3), Ctx_lineTo (Fin 4) (Fin 3),
        Ctx_fill, Ctx_restore]"
proof (intro conjI)
  let ?T = "concat_mat (concat_mat (rotateY (angle ay)) (rotateX (angle ax)))
                       (concat_mat t (rotateZ (angle az)))"
  show "go toCss t (Rotate ax ay az child)
          = concat (map (spec_emit toCss) (spec_leaves ?T child))"
    by (simp only: go_spec spec_leaves.simps)
  show "go toCss t (Rotate ax ay az (Fill sh st)) = spec_emit toCss (?T, FillLeaf sh st)"
    by (simp only: go_spec spec_leaves.simps) simp
  show "go toCss t (Rotate ax ay az child) = go toCss ?T child"
    by (simp add: mul_def)
  show "mul B A = concat_mat A B"
    by (simp add: mul_def)
  let ?sh = "Path False [[Fin 1, Fin 1, Fin 1], [Fin 2, Fin 1, Fin 5]]"
  let ?T0 = "concat_mat (concat_mat (rotateY (Fin 0)) (rotateX (Fin 0)))
               (concat_mat (concat_mat identity (scale [Fin 2, Fin 3, Fin 4])) (rotateZ (Fin 0)))"
  have S: "concat_mat identity (scale [Fin 2, Fin 3, Fin 4]) = scale [Fin 2, Fin 3, Fin 4]"
    by (simp add: mat_eval identity_def scale_def number_arith)
  have R: "concat_mat (rotateY (Fin 0)) (rotateX (Fin 0)) = identity"
    by (simp add: mat_eval identity_def rotateX_def rotateY_def number_arith)
  have Z: "concat_mat (scale [Fin 2, Fin 3, Fin 4]) (rotateZ (Fin 0))
             = [[Fin 2, Fin 0, Fin 0, Fin 0], [Fin 0, Fin 3, Fin 0, Fin 0],
                [Fin 0, Fin 0, Fin 0, Fin 0], [Fin 0, Fin 0, Fin 0, Fin 1]]"
    by (simp add: mat_eval scale_def rotateZ_def number_arith)
  have T0: "?T0 = [[Fin 2, Fin 0, Fin 0, Fin 0], [Fin 0, Fin 3, Fin 0, Fin 0],
                   [Fin 0, Fin 0, Fin 0, Fin 0], [Fin 0, Fin 0, Fin 0, Fin 1]]"
    unfolding S R Z by (simp add: mat_eval identity_def number_arith)
  have rs: "renderShape ?sh = [[[Fin 1, Fin 1, Fin 1], [Fin 2, Fin 1, Fin 5]]]"
    by (simp add: lineTo_def moveTo_def isPointFinite_def vec_at_def)
  have tc: "toCoords ?sh ?T0 = [[[Fin 2, Fin 3, Fin 0, Fin 1], [Fin 4, Fin 3, Fin 0, Fin 1]]]"
    unfolding toCoords_def rs T0
    by (simp add: mul_def mat_eval VT_def number_arith)
  show "render toCss (Scale (Fin 2) (Fin 3) (Fin 4)
        (Rotate (Degrees (Fin 0)) (Degrees (Fin 0)) (Degrees (Fin 0)) (Fill ?sh (FillStyle None))))
     = [Ctx_save, Ctx_beginPath, Ctx_moveTo (Fin 2) (Fin 3), Ctx_lineTo (Fin 4) (Fin 3),
        Ctx_fill, Ctx_restore]"
    unfolding render_def
    by (simp add: mul_def tc withContext_def applyStyle_def C_save_def C_restore_def
        C_beginPath_def C_fill_def C_moveTo_def C_lineTo_def vec_at_def)
qed

section \<open>The interpreter: a filled closed square\<close>

text \<open>
  Claim C2. Rendering the filled closed path through (0,0,0), (1,0,0), (1,1,0),
  (0,1,0) from the identity transform performs, in this order: save, set the fill
  style to the CSS string of the colour, begin a path, move to (0,0), lines to (1,0),
  (1,1), (0,1) and back to (0,0), fill, restore.
\<close>

theorem render_closed_square:
  "render toCss
     (Fill (Path True [[Fin 0, Fin 0, Fin 0], [Fin 1, Fin 0, Fin 0],
                       [Fin 1, Fin 1, Fin 0], [Fin 0, Fin 1, Fin 0]])
           (FillStyle (Some RED)))
   = [Ctx_save, Ctx_fillStyle (toCss RED), Ctx_beginPath,
      Ctx_moveTo (Fin 0) (Fin 0), Ctx_lineTo (Fin 1) (Fin 0), Ctx_lineTo (Fin 1) (Fin 1),
      Ctx_lineTo (Fin 0) (Fin 1), Ctx_lineTo (Fin 0) (Fin 0), Ctx_fill, Ctx_restore]"
proof -
  let ?sq = "Path True [[Fin 0, Fin 0, Fin 0], [Fin 1, Fin 0, Fin 0],
                        [Fin 1, Fin 1, Fin 0], [Fin 0, Fin 1, Fin 0]]"
  have rs: "renderShape ?sq
     = [[[Fin 0, Fin 0, Fin 0], [Fin 1, Fin 0, Fin 0], [Fin 1, Fin 1, Fin 0],
         [Fin 0, Fin 1, Fin 0], [Fin 0, Fin 0, Fin 0]]]"
    by (simp add: closePath_def lineTo_def moveTo_def isPointFinite_def vec_at_def
        same_point_def Let_def)
  have tc: "toCoords ?sq identity
     = [[[Fin 0, Fin 0, Fin 0, Fin 1], [Fin 1, Fin 0, Fin 0, Fin 1], [Fin 1, Fin 1, Fin 0, Fin 1],
         [Fin 0, Fin 1, Fin 0, Fin 1], [Fin 0, Fin 0, Fin 0, Fin 1]]]"
    unfolding toCoords_def rs
    by (simp add: mul_def concat_mat_def transpose_mat_def row_def vec_at_def dot_def zipWith_def
        identity_def VT_def number_arith upt_conv_Cons)
  show ?thesis
    unfolding render_def
    by (simp add: tc withContext_def applyStyle_def C_save_def C_restore_def C_beginPath_def
        C_fill_def C_setFillStyle_def C_moveTo_def C_lineTo_def vec_at_def)
qed

end
